theory Spec2Isabelle
  imports Complex_Main "HOL-Library.Sublist" "HOL-Library.AList"
begin

section \<open>Python values\<close>

text \<open>
  A Python float: a finite double \<open>Fin m e\<close> of value \<open>m * 2 ^ e\<close> (a mantissa and a
  binary exponent; the same value can be written with several pairs, and the program
  never asks whether two floats are written alike), one of the two infinities, or NaN.
  Comparisons are IEEE comparisons of the values (every comparison with NaN is false).
  The operations that round (the conversion of an int, division, multiplication) belong
  to the environment below.
\<close>

datatype pyfloat = Fin int int | PInf | NInf | NaN

fun flt :: "pyfloat \<Rightarrow> pyfloat \<Rightarrow> bool" where
  "flt NaN _ = False"
| "flt _ NaN = False"
| "flt (Fin a ea) (Fin b eb) =
     (a * 2 ^ nat (ea - min ea eb) < b * 2 ^ nat (eb - min ea eb))"
| "flt (Fin _ _) PInf = True"
| "flt (Fin _ _) NInf = False"
| "flt PInf _ = False"
| "flt NInf NInf = False"
| "flt NInf _ = True"

fun feq :: "pyfloat \<Rightarrow> pyfloat \<Rightarrow> bool" where
  "feq (Fin a ea) (Fin b eb) =
     (a * 2 ^ nat (ea - min ea eb) = b * 2 ^ nat (eb - min ea eb))"
| "feq PInf PInf = True"
| "feq NInf NInf = True"
| "feq _ _ = False"

definition fle :: "pyfloat \<Rightarrow> pyfloat \<Rightarrow> bool" where
  "fle a b = (flt a b \<or> feq a b)"

definition fgt :: "pyfloat \<Rightarrow> pyfloat \<Rightarrow> bool" where
  "fgt a b = flt b a"

definition fge :: "pyfloat \<Rightarrow> pyfloat \<Rightarrow> bool" where
  "fge a b = fle b a"

text \<open>
  The scalar values a table cell, a row label or a configuration parameter can hold.
  A callable is a reference into the table of callables of the environment; a
  datetime is opaque.
\<close>

datatype pyval =
    VNone
  | VBool bool
  | VInt int
  | VFloat pyfloat
  | VStr string
  | VCallable nat
  | VDatetime nat

type_synonym pydict = "(string \<times> pyval) list"

text \<open>\<^verbatim>\<open>d.get(k)\<close> and \<^verbatim>\<open>d.get(k, default)\<close> of a dict.\<close>

definition dict_get :: "pydict \<Rightarrow> string \<Rightarrow> pyval" where
  "dict_get d k = (case map_of d k of None \<Rightarrow> VNone | Some v \<Rightarrow> v)"

definition dict_get_default :: "pydict \<Rightarrow> string \<Rightarrow> pyval \<Rightarrow> pyval" where
  "dict_get_default d k dflt = (case map_of d k of None \<Rightarrow> dflt | Some v \<Rightarrow> v)"

text \<open>\<^verbatim>\<open>pd.isna\<close> on a scalar: None and NaN are missing values.\<close>

fun isna :: "pyval \<Rightarrow> bool" where
  "isna VNone = True"
| "isna (VFloat NaN) = True"
| "isna _ = False"

text \<open>Truth value of a scalar, as \<^verbatim>\<open>if x:\<close> reads it.\<close>

fun truthy :: "pyval \<Rightarrow> bool" where
  "truthy VNone = False"
| "truthy (VBool b) = b"
| "truthy (VInt n) = (n \<noteq> 0)"
| "truthy (VFloat (Fin m e)) = (m \<noteq> 0)"
| "truthy (VFloat _) = True"
| "truthy (VStr s) = (s \<noteq> [])"
| "truthy (VCallable _) = True"
| "truthy (VDatetime _) = True"

text \<open>The exceptions the framework raises or lets through, each with its message.\<close>

datatype error =
    InvalidConfigError string
  | UnknownValidatorError string
  | ValueError string
  | TypeError string
  | KeyError string
  | RuntimeError string

text \<open>
  What the code takes from Python, its standard library and pandas and does not define
  itself: the conversion of a string and of an int to a float (\<open>Inl\<close> is the text of
  the exception: an int beyond the range of a double raises OverflowError, a smaller one
  is rounded to the nearest double), the true division \<^verbatim>\<open>a / b\<close> of two ints and the
  product of two floats (both rounded to a double), printing floats and other objects,
  the regular expression engine, datetime parsing and the calls of user-supplied
  callables. A regular expression is compiled once (\<open>Inl\<close> is the text of
  \<^verbatim>\<open>re.error\<close>) to the function that \<^verbatim>\<open>regex.match\<close> computes on a text.
\<close>

record py_env =
  float_of_str :: "string \<Rightarrow> string + pyfloat"
  float_of_int :: "int \<Rightarrow> string + pyfloat"
  int_truediv :: "int \<Rightarrow> int \<Rightarrow> pyfloat"
  float_mul :: "pyfloat \<Rightarrow> pyfloat \<Rightarrow> pyfloat"
  str_other :: "pyval \<Rightarrow> string"
  fmt_2f :: "pyfloat \<Rightarrow> string"
  re_compile :: "string \<Rightarrow> bool \<Rightarrow> string + (string \<Rightarrow> bool)"
  to_datetime :: "pyval \<Rightarrow> string option"
  call :: "nat \<Rightarrow> pyval \<Rightarrow> string + pyval"

subsection \<open>Printing\<close>

fun str_nat :: "nat \<Rightarrow> string" where
  "str_nat n =
     (if n < 10 then [char_of (48 + n)]
      else str_nat (n div 10) @ [char_of (48 + n mod 10)])"

declare str_nat.simps [simp del]

definition str_int :: "int \<Rightarrow> string" where
  "str_int i = (if i < 0 then CHR ''-'' # str_nat (nat (- i)) else str_nat (nat i))"

text \<open>\<^verbatim>\<open>str(v)\<close>, which is also how an f-string prints \<^verbatim>\<open>{v}\<close>.\<close>

fun py_str :: "py_env \<Rightarrow> pyval \<Rightarrow> string" where
  "py_str env VNone = ''None''"
| "py_str env (VBool b) = (if b then ''True'' else ''False'')"
| "py_str env (VInt n) = str_int n"
| "py_str env (VStr s) = s"
| "py_str env v = str_other env v"

text \<open>\<^verbatim>\<open>type(v).__name__\<close>.\<close>

fun type_name :: "pyval \<Rightarrow> string" where
  "type_name VNone = ''NoneType''"
| "type_name (VBool _) = ''bool''"
| "type_name (VInt _) = ''int''"
| "type_name (VFloat _) = ''float''"
| "type_name (VStr _) = ''str''"
| "type_name (VCallable _) = ''function''"
| "type_name (VDatetime _) = ''datetime''"

subsection \<open>Numbers\<close>

text \<open>
  \<^verbatim>\<open>float(v)\<close>; \<open>Inl\<close> is the message of the exception raised. A bool converts
  to 1.0 or 0.0; an int is converted by the environment, which rounds it to a double.
\<close>

fun py_float :: "py_env \<Rightarrow> pyval \<Rightarrow> string + pyfloat" where
  "py_float env (VBool b) = Inr (Fin (if b then 1 else 0) 0)"
| "py_float env (VInt n) = float_of_int env n"
| "py_float env (VFloat f) = Inr f"
| "py_float env (VStr s) = float_of_str env s"
| "py_float env v =
     Inl (''float() argument must be a string or a real number, not '' @ type_name v)"

text \<open>
  The number an ordering comparison \<^verbatim>\<open>x < v\<close> of a float \<open>x\<close> with \<open>v\<close> reads;
  \<open>None\<close> when Python raises TypeError (v is not a number). Python compares a float
  with an int by their exact values, without rounding the int.
\<close>

fun as_number :: "pyval \<Rightarrow> pyfloat option" where
  "as_number (VBool b) = Some (Fin (if b then 1 else 0) 0)"
| "as_number (VInt n) = Some (Fin n 0)"
| "as_number (VFloat f) = Some f"
| "as_number _ = None"

definition cmp_error :: "string \<Rightarrow> pyval \<Rightarrow> error" where
  "cmp_error opr v =
     TypeError (''not supported between instances of float and '' @ type_name v @ '': '' @ opr)"

section \<open>Tables\<close>

text \<open>
  A DataFrame: the row labels in row order and, for each column label, the values of
  the column in the same order. \<^verbatim>\<open>len(df)\<close> is the number of row labels;
  \<^verbatim>\<open>df[column].items()\<close> pairs each label with the value of its row and raises
  KeyError when the column is absent.
\<close>

record data_frame =
  df_index :: "pyval list"
  df_columns :: "(pyval \<times> pyval list) list"

definition len_df :: "data_frame \<Rightarrow> nat" where
  "len_df df = length (df_index df)"

definition has_column :: "data_frame \<Rightarrow> pyval \<Rightarrow> bool" where
  "has_column df col = (col \<in> set (map fst (df_columns df)))"

definition series_items :: "py_env \<Rightarrow> data_frame \<Rightarrow> pyval \<Rightarrow> error + (pyval \<times> pyval) list" where
  "series_items env df col =
     (case map_of (df_columns df) col of
        None \<Rightarrow> Inl (KeyError (py_str env col))
      | Some vals \<Rightarrow> Inr (zip (df_index df) vals))"

section \<open>Validation results (base.py)\<close>

record failure_detail =
  fd_row :: pyval
  fd_value :: pyval
  fd_reason :: pyval

record validation_result =
  validator_name :: string
  passed :: bool
  total_records :: nat
  failed_records :: nat
  error_details :: "failure_detail list"
  message :: string
  duration_seconds :: "real option"

text \<open>
  The row loop every validator runs: the rows in table order, a failure detail appended
  for each failing row, an exception of the row check ending the loop.
\<close>

fun check_rows ::
  "(pyval \<Rightarrow> pyval \<Rightarrow> error + failure_detail option) \<Rightarrow> (pyval \<times> pyval) list
     \<Rightarrow> failure_detail list \<Rightarrow> error + failure_detail list" where
  "check_rows f [] failed_details = Inr failed_details"
| "check_rows f ((idx, val) # rest) failed_details =
     (case f idx val of
        Inl e \<Rightarrow> Inl e
      | Inr None \<Rightarrow> check_rows f rest failed_details
      | Inr (Some d) \<Rightarrow> check_rows f rest (failed_details @ [d]))"

section \<open>RangeValidator (validators/range_validator.py)\<close>

definition range_row ::
  "py_env \<Rightarrow> pyval \<Rightarrow> pyval \<Rightarrow> pyval \<Rightarrow> pyval \<Rightarrow> pyval \<Rightarrow> error + failure_detail option" where
  "range_row env min_value max_value inclusive idx val =
     (if isna val then
        Inr (Some \<lparr>fd_row = idx, fd_value = val, fd_reason = VStr ''Null value''\<rparr>)
      else case py_float env val of
        Inl _ \<Rightarrow>
          Inr (Some \<lparr>fd_row = idx, fd_value = val, fd_reason = VStr ''Value is not numeric''\<rparr>)
      | Inr numeric_val \<Rightarrow>
          (let lower =
             (if min_value \<noteq> VNone then
                (if truthy inclusive then
                   (case as_number min_value of
                      None \<Rightarrow> Inl (cmp_error ''<'' min_value)
                    | Some lo \<Rightarrow>
                        Inr (if flt numeric_val lo
                             then Some \<lparr>fd_row = idx, fd_value = val,
                                        fd_reason = VStr (''Value below minimum '' @ py_str env min_value)\<rparr>
                             else None))
                 else
                   (case as_number min_value of
                      None \<Rightarrow> Inl (cmp_error ''<='' min_value)
                    | Some lo \<Rightarrow>
                        Inr (if fle numeric_val lo
                             then Some \<lparr>fd_row = idx, fd_value = val,
                                        fd_reason = VStr (''Value not greater than minimum ''
                                          @ py_str env min_value)\<rparr>
                             else None)))
              else Inr None)
           in case lower of
                Inl e \<Rightarrow> Inl e
              | Inr (Some d) \<Rightarrow> Inr (Some d)
              | Inr None \<Rightarrow>
                  (if max_value \<noteq> VNone then
                     (if truthy inclusive then
                        (case as_number max_value of
                           None \<Rightarrow> Inl (cmp_error ''>'' max_value)
                         | Some hi \<Rightarrow>
                             Inr (if fgt numeric_val hi
                                  then Some \<lparr>fd_row = idx, fd_value = val,
                                             fd_reason = VStr (''Value above maximum ''
                                               @ py_str env max_value)\<rparr>
                                  else None))
                      else
                        (case as_number max_value of
                           None \<Rightarrow> Inl (cmp_error ''>='' max_value)
                         | Some hi \<Rightarrow>
                             Inr (if fge numeric_val hi
                                  then Some \<lparr>fd_row = idx, fd_value = val,
                                             fd_reason = VStr (''Value not less than maximum ''
                                               @ py_str env max_value)\<rparr>
                                  else None)))
                   else Inr None)))"

definition range_validate :: "py_env \<Rightarrow> pydict \<Rightarrow> data_frame \<Rightarrow> pyval \<Rightarrow> error + validation_result" where
  "range_validate env config df column =
     (let min_value = dict_get config ''min_value'';
          max_value = dict_get config ''max_value'';
          inclusive = dict_get_default config ''inclusive'' (VBool True);
          total = len_df df
      in case series_items env df column of
           Inl e \<Rightarrow> Inl e
         | Inr series \<Rightarrow>
             (case check_rows (range_row env min_value max_value inclusive) series [] of
                Inl e \<Rightarrow> Inl e
              | Inr failed_details \<Rightarrow>
                  (let failed_count = length failed_details;
                       passed = (failed_count = 0);
                       message =
                         (if passed then ''All '' @ str_nat total @ '' records passed''
                          else str_nat failed_count @ ''/'' @ str_nat total
                                 @ '' records failed range validation'')
                   in Inr \<lparr>validator_name = ''range'', passed = passed,
                            total_records = total, failed_records = failed_count,
                            error_details = failed_details, message = message,
                            duration_seconds = None\<rparr>)))"

section \<open>NullCheckValidator (validators/null_check_validator.py)\<close>

text \<open>
  The loop over \<^verbatim>\<open>null_mask.items()\<close> that records every null row with one reason;
  the three branches of the validator differ only in the reason.
\<close>

definition null_row :: "pyval \<Rightarrow> pyval \<Rightarrow> pyval \<Rightarrow> error + failure_detail option" where
  "null_row reason idx is_null =
     Inr (if truthy is_null
          then Some \<lparr>fd_row = idx, fd_value = VNone, fd_reason = reason\<rparr>
          else None)"

definition null_check_validate ::
  "py_env \<Rightarrow> pydict \<Rightarrow> data_frame \<Rightarrow> pyval \<Rightarrow> error + validation_result" where
  "null_check_validate env config df column =
     (let allow_null = dict_get_default config ''allow_null'' (VBool False);
          max_null_percent = dict_get config ''max_null_percent''
      in case series_items env df column of
           Inl e \<Rightarrow> Inl e
         | Inr series \<Rightarrow>
             (let total = length series;
                  null_mask = map (\<lambda>(idx, v). (idx, VBool (isna v))) series;
                  num_null = length (filter (\<lambda>(idx, is_null). truthy is_null) null_mask);
                  outcome =
                    (if \<not> truthy allow_null then
                       check_rows (null_row (VStr ''Null value not allowed'')) null_mask []
                     else if max_null_percent \<noteq> VNone then
                       (let percent =
                              (if total \<noteq> 0
                               then float_mul env (int_truediv env (int num_null) (int total))
                                      (Fin 100 0)
                               else Fin 0 0)
                        in case as_number max_null_percent of
                             None \<Rightarrow> Inl (cmp_error ''>'' max_null_percent)
                           | Some limit \<Rightarrow>
                               (if fgt percent limit then
                                  check_rows
                                    (null_row (VStr (''Null percentage '' @ fmt_2f env percent
                                       @ ''% exceeds limit '' @ py_str env max_null_percent
                                       @ ''%''))) null_mask []
                                else
                                  check_rows
                                    (null_row (VStr (''Null present but within allowed ''
                                       @ py_str env max_null_percent @ ''% limit'')))
                                    null_mask []))
                     else Inr [])
              in case outcome of
                   Inl e \<Rightarrow> Inl e
                 | Inr failed_details \<Rightarrow>
                     (let failed_count = length failed_details;
                          passed = (failed_count = 0);
                          message =
                            (if passed then ''All '' @ str_nat total @ '' records passed''
                             else str_nat failed_count @ ''/'' @ str_nat total
                                    @ '' records failed null check'')
                      in Inr \<lparr>validator_name = ''null_check'', passed = passed,
                               total_records = total, failed_records = failed_count,
                               error_details = failed_details, message = message,
                               duration_seconds = None\<rparr>)))"

section \<open>RegexValidator (validators/regex_validator.py)\<close>

definition sq :: string where
  "sq = [CHR 0x27]"

definition regex_row ::
  "py_env \<Rightarrow> (string \<Rightarrow> bool) \<Rightarrow> pyval \<Rightarrow> pyval \<Rightarrow> error + failure_detail option" where
  "regex_row env regex_match idx val =
     (if isna val then
        Inr (Some \<lparr>fd_row = idx, fd_value = VNone,
                   fd_reason = VStr ''Null value cannot match pattern''\<rparr>)
      else
        (let text = py_str env val
         in Inr (if \<not> regex_match text
                 then Some \<lparr>fd_row = idx, fd_value = VStr text,
                            fd_reason = VStr ''Does not match pattern''\<rparr>
                 else None)))"

definition regex_validate ::
  "py_env \<Rightarrow> pydict \<Rightarrow> data_frame \<Rightarrow> pyval \<Rightarrow> error + validation_result" where
  "regex_validate env config df column =
     (let pattern_value = dict_get config ''pattern''
      in if pattern_value = VNone then
           Inl (ValueError (sq @ ''pattern'' @ sq @ '' parameter is required for RegexValidator''))
         else
           (let pattern = py_str env pattern_value;
                case_sensitive = dict_get_default config ''case_sensitive'' (VBool True);
                ignorecase = (\<not> truthy case_sensitive)
            in case re_compile env pattern ignorecase of
                 Inl e \<Rightarrow> Inl (ValueError (''Invalid regular expression pattern: '' @ e))
               | Inr regex_match \<Rightarrow>
                   (let total = len_df df
                    in case series_items env df column of
                         Inl e \<Rightarrow> Inl e
                       | Inr series \<Rightarrow>
                           (case check_rows (regex_row env regex_match) series [] of
                              Inl e \<Rightarrow> Inl e
                            | Inr failed_details \<Rightarrow>
                                (let failed_count = length failed_details;
                                     passed = (failed_count = 0);
                                     message =
                                       (if passed
                                        then ''All '' @ str_nat total @ '' records passed''
                                        else str_nat failed_count @ ''/'' @ str_nat total
                                               @ '' records failed regex validation'')
                                 in Inr \<lparr>validator_name = ''regex'', passed = passed,
                                          total_records = total, failed_records = failed_count,
                                          error_details = failed_details, message = message,
                                          duration_seconds = None\<rparr>)))))"

section \<open>CustomFunctionValidator (validators/custom_validator.py)\<close>

text \<open>
  \<^verbatim>\<open>func(val)\<close>: the call of the callable the value refers to; calling anything else
  raises TypeError. \<open>Inl\<close> is the text of the exception.
\<close>

fun py_call :: "py_env \<Rightarrow> pyval \<Rightarrow> pyval \<Rightarrow> string + pyval" where
  "py_call env (VCallable k) v = call env k v"
| "py_call env f v = Inl (sq @ type_name f @ sq @ '' object is not callable'')"

definition custom_row ::
  "py_env \<Rightarrow> pyval \<Rightarrow> pyval \<Rightarrow> pyval \<Rightarrow> pyval \<Rightarrow> error + failure_detail option" where
  "custom_row env func error_message idx val =
     (case py_call env func val of
        Inl e \<Rightarrow>
          Inr (Some \<lparr>fd_row = idx, fd_value = val,
                     fd_reason = VStr (''Exception in validation function: '' @ e)\<rparr>)
      | Inr result \<Rightarrow>
          Inr (if \<not> truthy result
               then (let reason = (if truthy error_message then error_message
                                   else VStr ''Custom validation failed'')
                     in Some \<lparr>fd_row = idx, fd_value = val, fd_reason = reason\<rparr>)
               else None))"

definition custom_validate ::
  "py_env \<Rightarrow> pydict \<Rightarrow> data_frame \<Rightarrow> pyval \<Rightarrow> error + validation_result" where
  "custom_validate env config df column =
     (let func = dict_get config ''validation_func'';
          error_message = dict_get config ''error_message''
      in if func = VNone then
           Inl (ValueError (sq @ ''validation_func'' @ sq
                  @ '' parameter is required for CustomFunctionValidator''))
         else
           (let total = len_df df
            in case series_items env df column of
                 Inl e \<Rightarrow> Inl e
               | Inr series \<Rightarrow>
                   (case check_rows (custom_row env func error_message) series [] of
                      Inl e \<Rightarrow> Inl e
                    | Inr failed_details \<Rightarrow>
                        (let failed_count = length failed_details;
                             passed = (failed_count = 0);
                             message =
                               (if passed then ''All '' @ str_nat total @ '' records passed''
                                else str_nat failed_count @ ''/'' @ str_nat total
                                       @ '' records failed custom validation'')
                         in Inr \<lparr>validator_name = ''custom_function'', passed = passed,
                                  total_records = total, failed_records = failed_count,
                                  error_details = failed_details, message = message,
                                  duration_seconds = None\<rparr>))))"

section \<open>TypeValidator (validators/type_validator.py)\<close>

text \<open>\<^verbatim>\<open>s.lower()\<close> on ASCII letters (other characters are left as they are).\<close>

definition lower_char :: "char \<Rightarrow> char" where
  "lower_char c =
     (if (65::nat) \<le> of_char c \<and> of_char c \<le> (90::nat) then char_of (of_char c + (32::nat))
      else c)"

definition py_lower :: "string \<Rightarrow> string" where
  "py_lower s = map lower_char s"

text \<open>
  The non-strict int check: \<^verbatim>\<open>int_val = int(float(val))\<close>, which truncates towards
  zero, then \<^verbatim>\<open>abs(float(val) - int_val) > 0\<close>: the difference of a double and its
  integer part is computed without rounding, so it is positive exactly when the two
  differ. \<open>Some\<close> is the text of the exception raised.
\<close>

definition coerce_int :: "py_env \<Rightarrow> pyval \<Rightarrow> string option" where
  "coerce_int env val =
     (case py_float env val of
        Inl e \<Rightarrow> Some e
      | Inr PInf \<Rightarrow> Some ''cannot convert float infinity to integer''
      | Inr NInf \<Rightarrow> Some ''cannot convert float infinity to integer''
      | Inr NaN \<Rightarrow> Some ''cannot convert float NaN to integer''
      | Inr (Fin m e) \<Rightarrow>
          (let int_val =
                 (if 0 \<le> e then m * 2 ^ nat e
                  else if m < 0 then - ((- m) div 2 ^ nat (- e))
                  else m div 2 ^ nat (- e))
           in if \<not> feq (Fin m e) (Fin int_val 0)
              then Some ''Non-integer value cannot be coerced to int''
              else None))"

text \<open>
  The body of the \<^verbatim>\<open>try\<close> of one row: \<open>Some\<close> is \<^verbatim>\<open>str(e)\<close> of the exception
  it raises, \<open>None\<close> when the value is accepted.
\<close>

definition type_check :: "py_env \<Rightarrow> string \<Rightarrow> pyval \<Rightarrow> pyval \<Rightarrow> string option" where
  "type_check env expected_type strict val =
     (if expected_type = ''int'' then
        (if truthy strict then
           (case val of
              VInt _ \<Rightarrow> None
            | VBool _ \<Rightarrow> None
            | _ \<Rightarrow> Some (''Expected int but got '' @ type_name val))
         else coerce_int env val)
      else if expected_type = ''float'' then
        (if truthy strict then
           (case val of
              VFloat _ \<Rightarrow> None
            | _ \<Rightarrow> Some (''Expected float but got '' @ type_name val))
         else (case py_float env val of Inl e \<Rightarrow> Some e | Inr _ \<Rightarrow> None))
      else if expected_type = ''string'' then
        (if truthy strict then
           (case val of
              VStr _ \<Rightarrow> None
            | _ \<Rightarrow> Some (''Expected string but got '' @ type_name val))
         else None)
      else if expected_type = ''datetime'' then
        (if truthy strict then
           (case val of
              VDatetime _ \<Rightarrow> None
            | _ \<Rightarrow> Some (''Expected datetime but got '' @ type_name val))
         else to_datetime env val)
      else if expected_type = ''bool'' then
        (if truthy strict then
           (case val of
              VBool _ \<Rightarrow> None
            | _ \<Rightarrow> Some (''Expected bool but got '' @ type_name val))
         else
           (case val of
              VBool _ \<Rightarrow> None
            | VInt n \<Rightarrow> if n = 0 \<or> n = 1 then None else Some ''Cannot coerce value to bool''
            | VFloat f \<Rightarrow>
                if feq f (Fin 0 0) \<or> feq f (Fin 1 0) then None
                else Some ''Cannot coerce value to bool''
            | VStr s \<Rightarrow>
                if py_lower s \<in> {''true'', ''false'', ''1'', ''0''} then None
                else Some ''Cannot coerce value to bool''
            | _ \<Rightarrow> Some ''Cannot coerce value to bool''))
      else None)"

definition type_row ::
  "py_env \<Rightarrow> string \<Rightarrow> pyval \<Rightarrow> pyval \<Rightarrow> pyval \<Rightarrow> error + failure_detail option" where
  "type_row env expected_type strict idx val =
     (if isna val then
        Inr (Some \<lparr>fd_row = idx, fd_value = val, fd_reason = VStr ''Null value''\<rparr>)
      else
        (case type_check env expected_type strict val of
           Some e \<Rightarrow> Inr (Some \<lparr>fd_row = idx, fd_value = val, fd_reason = VStr e\<rparr>)
         | None \<Rightarrow> Inr None))"

definition valid_types :: "string list" where
  "valid_types = [''bool'', ''datetime'', ''float'', ''int'', ''string'']"

definition type_validate ::
  "py_env \<Rightarrow> pydict \<Rightarrow> data_frame \<Rightarrow> pyval \<Rightarrow> error + validation_result" where
  "type_validate env config df column =
     (let expected_type = py_lower (py_str env (dict_get config ''expected_type''))
      in if expected_type = [] then
           Inl (ValueError (sq @ ''expected_type'' @ sq
                  @ '' parameter is required for TypeValidator''))
         else
           (let strict = dict_get_default config ''strict'' (VBool False)
            in if expected_type \<notin> set valid_types then
                 Inl (ValueError (''Unsupported expected_type: '' @ sq @ expected_type @ sq
                        @ ''.'' @ [CHR 0x0A] @ ''Supported types: [''
                        @ sq @ ''bool'' @ sq @ '', '' @ sq @ ''datetime'' @ sq @ '', ''
                        @ sq @ ''float'' @ sq @ '', '' @ sq @ ''int'' @ sq @ '', ''
                        @ sq @ ''string'' @ sq @ '']''))
               else
                 (case series_items env df column of
                    Inl e \<Rightarrow> Inl e
                  | Inr series \<Rightarrow>
                      (let total = length series
                       in case check_rows (type_row env expected_type strict) series [] of
                            Inl e \<Rightarrow> Inl e
                          | Inr failed_details \<Rightarrow>
                              (let failed_count = length failed_details;
                                   passed = (failed_count = 0);
                                   message =
                                     (if passed
                                      then ''All '' @ str_nat total @ '' records passed''
                                      else str_nat failed_count @ ''/'' @ str_nat total
                                             @ '' records failed type validation'')
                               in Inr \<lparr>validator_name = ''type'', passed = passed,
                                        total_records = total, failed_records = failed_count,
                                        error_details = failed_details, message = message,
                                        duration_seconds = None\<rparr>)))))"

section \<open>The validator classes and the registry (registry.py)\<close>

datatype validator_class =
    RangeValidator
  | NullCheckValidator
  | RegexValidator
  | TypeValidator
  | CustomFunctionValidator

text \<open>The \<^verbatim>\<open>name\<close> property of each class.\<close>

fun name_of :: "validator_class \<Rightarrow> string" where
  "name_of RangeValidator = ''range''"
| "name_of NullCheckValidator = ''null_check''"
| "name_of RegexValidator = ''regex''"
| "name_of TypeValidator = ''type''"
| "name_of CustomFunctionValidator = ''custom_function''"

text \<open>An instance: the class and the configuration \<^verbatim>\<open>__init__\<close> stores.\<close>

record validator =
  v_class :: validator_class
  v_config :: pydict

fun validate :: "py_env \<Rightarrow> validator \<Rightarrow> data_frame \<Rightarrow> pyval \<Rightarrow> error + validation_result" where
  "validate env v df column =
     (case v_class v of
        RangeValidator \<Rightarrow> range_validate env (v_config v) df column
      | NullCheckValidator \<Rightarrow> null_check_validate env (v_config v) df column
      | RegexValidator \<Rightarrow> regex_validate env (v_config v) df column
      | TypeValidator \<Rightarrow> type_validate env (v_config v) df column
      | CustomFunctionValidator \<Rightarrow> custom_validate env (v_config v) df column)"

type_synonym registry = "string \<rightharpoonup> validator_class"

definition register :: "registry \<Rightarrow> validator_class \<Rightarrow> registry" where
  "register reg validator_class = reg(name_of validator_class \<mapsto> validator_class)"

text \<open>
  \<^verbatim>\<open>_validators.get(name)\<close>: the registry's keys are the names the classes report,
  all strings, so a name that is not a string is never found.
\<close>

fun get_validator :: "registry \<Rightarrow> pyval \<Rightarrow> validator_class option" where
  "get_validator reg (VStr name) = reg name"
| "get_validator reg _ = None"

definition create_validator :: "registry \<Rightarrow> pyval \<Rightarrow> pydict \<Rightarrow> validator option" where
  "create_validator reg name config =
     (case get_validator reg name of
        None \<Rightarrow> None
      | Some validator_class \<Rightarrow> Some \<lparr>v_class = validator_class, v_config = config\<rparr>)"

text \<open>The registry once \<^verbatim>\<open>validator.validators\<close> is imported: the five decorators, in import order.\<close>

definition builtin_registry :: registry where
  "builtin_registry =
     fold (\<lambda>c reg. register reg c)
       [RangeValidator, NullCheckValidator, RegexValidator, TypeValidator,
        CustomFunctionValidator] Map.empty"

section \<open>Parameter schemas (\<^verbatim>\<open>get_required_params\<close>)\<close>

text \<open>
  The types a schema names. \<^verbatim>\<open>typing.Callable\<close> (which the custom validator's schema
  uses) and \<^verbatim>\<open>collections.abc.Callable\<close> (which the loader compares with) are
  different objects; \<^verbatim>\<open>isinstance\<close> accepts callables for both.
\<close>

datatype ptype = PInt | PFloat | PBool | PStr | PTypingCallable | PAbcCallable

datatype type_spec = Single ptype | Tuple "ptype list"

record param_meta =
  p_type :: type_spec
  p_default :: pyval
  p_description :: string
  p_required :: bool

type_synonym schema = "(string \<times> param_meta) list"

fun get_required_params :: "validator_class \<Rightarrow> schema" where
  "get_required_params RangeValidator =
     [(''min_value'', \<lparr>p_type = Tuple [PInt, PFloat], p_default = VNone,
         p_description = ''Minimum allowed value (optional)'', p_required = False\<rparr>),
      (''max_value'', \<lparr>p_type = Tuple [PInt, PFloat], p_default = VNone,
         p_description = ''Maximum allowed value (optional)'', p_required = False\<rparr>),
      (''inclusive'', \<lparr>p_type = Single PBool, p_default = VBool True,
         p_description = ''Whether range bounds are inclusive'', p_required = False\<rparr>)]"
| "get_required_params NullCheckValidator =
     [(''allow_null'', \<lparr>p_type = Single PBool, p_default = VBool False,
         p_description = ''Whether null values are allowed'', p_required = False\<rparr>),
      (''max_null_percent'', \<lparr>p_type = Single PFloat, p_default = VNone,
         p_description = ''Maximum percentage (0-100) of nulls allowed'',
         p_required = False\<rparr>)]"
| "get_required_params RegexValidator =
     [(''pattern'', \<lparr>p_type = Single PStr, p_default = VNone,
         p_description = ''Regular expression pattern'', p_required = True\<rparr>),
      (''case_sensitive'', \<lparr>p_type = Single PBool, p_default = VBool True,
         p_description = ''Whether pattern matching is case sensitive'',
         p_required = False\<rparr>)]"
| "get_required_params TypeValidator =
     [(''expected_type'', \<lparr>p_type = Single PStr, p_default = VNone,
         p_description = ''Expected type (int, float, string, datetime, bool)'',
         p_required = True\<rparr>),
      (''strict'', \<lparr>p_type = Single PBool, p_default = VBool False,
         p_description = ''Whether to require exact type without conversion'',
         p_required = False\<rparr>)]"
| "get_required_params CustomFunctionValidator =
     [(''validation_func'', \<lparr>p_type = Single PTypingCallable, p_default = VNone,
         p_description = ''Callable that takes a single value and returns bool'',
         p_required = True\<rparr>),
      (''error_message'', \<lparr>p_type = Single PStr, p_default = VNone,
         p_description = ''Custom error message for failures'', p_required = False\<rparr>)]"

text \<open>\<^verbatim>\<open>isinstance(value, t)\<close>; a bool is an int in Python.\<close>

fun isinstance :: "pyval \<Rightarrow> ptype \<Rightarrow> bool" where
  "isinstance (VInt _) PInt = True"
| "isinstance (VBool _) PInt = True"
| "isinstance (VFloat _) PFloat = True"
| "isinstance (VBool _) PBool = True"
| "isinstance (VStr _) PStr = True"
| "isinstance (VCallable _) PTypingCallable = True"
| "isinstance (VCallable _) PAbcCallable = True"
| "isinstance _ _ = False"

fun callable :: "pyval \<Rightarrow> bool" where
  "callable (VCallable _) = True"
| "callable _ = False"

fun ptype_name :: "ptype \<Rightarrow> string" where
  "ptype_name PInt = ''int''"
| "ptype_name PFloat = ''float''"
| "ptype_name PBool = ''bool''"
| "ptype_name PStr = ''str''"
| "ptype_name PTypingCallable = ''Callable''"
| "ptype_name PAbcCallable = ''Callable''"

fun ptype_repr :: "ptype \<Rightarrow> string" where
  "ptype_repr PTypingCallable = ''typing.Callable''"
| "ptype_repr t = ''<class '' @ sq @ ptype_name t @ sq @ ''>''"

fun join_comma :: "string list \<Rightarrow> string" where
  "join_comma [] = []"
| "join_comma [x] = x"
| "join_comma (x # y # zs) = x @ '', '' @ join_comma (y # zs)"

definition tuple_repr :: "ptype list \<Rightarrow> string" where
  "tuple_repr ts =
     (case ts of
        [t] \<Rightarrow> ''('' @ ptype_repr t @ '',)''
      | _ \<Rightarrow> ''('' @ join_comma (map ptype_repr ts) @ '')'')"

section \<open>The configuration loader (config_loader.py)\<close>

text \<open>
  One item of the \<^verbatim>\<open>validations\<close> list: something that is not a dict, or a dict, read
  through its three lookups: \<^verbatim>\<open>get("column")\<close> and \<^verbatim>\<open>get("validator")\<close>
  (\<open>VNone\<close> when the key is absent or null) and the \<^verbatim>\<open>params\<close> dict (\<open>None\<close>
  when the key is absent or null).
\<close>

datatype cfg_entry = NotADict | Entry pyval pyval "pydict option"

text \<open>The type check of one parameter value; \<open>Some\<close> is the error raised.\<close>

definition check_param_type :: "py_env \<Rightarrow> string \<Rightarrow> pyval \<Rightarrow> type_spec \<Rightarrow> pyval \<Rightarrow> error option" where
  "check_param_type env param_name vname expected_type v =
     (if v \<noteq> VNone then
        (case expected_type of
           Tuple ts \<Rightarrow>
             (if \<not> list_ex (isinstance v) ts then
                Some (InvalidConfigError (''Parameter '' @ sq @ param_name @ sq
                        @ '' for validator '' @ sq @ py_str env vname @ sq
                        @ '' must be of type '' @ tuple_repr ts @ '', got '' @ type_name v))
              else None)
         | Single t \<Rightarrow>
             (if t = PAbcCallable then
                (if \<not> callable v then
                   Some (InvalidConfigError (''Parameter '' @ sq @ param_name @ sq
                           @ '' for validator '' @ sq @ py_str env vname @ sq
                           @ '' must be callable''))
                 else None)
              else if \<not> isinstance v t then
                Some (InvalidConfigError (''Parameter '' @ sq @ param_name @ sq
                        @ '' for validator '' @ sq @ py_str env vname @ sq
                        @ '' must be of type '' @ ptype_name t @ '', got '' @ type_name v))
              else None))
      else None)"

text \<open>The loop over \<^verbatim>\<open>schema.items()\<close>: defaults filled in, required parameters and types checked.\<close>

fun fill_params ::
  "py_env \<Rightarrow> pyval \<Rightarrow> nat \<Rightarrow> pyval \<Rightarrow> pydict \<Rightarrow> schema \<Rightarrow> pydict \<Rightarrow> error + pydict" where
  "fill_params env vname idx column params [] normalized_params =
     Inr normalized_params"
| "fill_params env vname idx column params ((param_name, meta) # rest)
       normalized_params =
     (let dflt = p_default meta;
          required = p_required meta;
          chosen =
            (case map_of params param_name of
               Some v \<Rightarrow> Inr v
             | None \<Rightarrow>
                 (if required \<and> dflt = VNone then
                    Inl (InvalidConfigError (''Missing required parameter '' @ sq @ param_name
                           @ sq @ '' for validator '' @ sq @ py_str env vname @ sq
                           @ '' in entry '' @ str_nat idx @ '' (column '' @ sq
                           @ py_str env column @ sq @ '').''))
                  else Inr dflt))
      in case chosen of
           Inl e \<Rightarrow> Inl e
         | Inr v \<Rightarrow>
             (case check_param_type env param_name vname (p_type meta) v of
                Some e \<Rightarrow> Inl e
              | None \<Rightarrow>
                  fill_params env vname idx column params rest
                    (AList.update param_name v normalized_params)))"

text \<open>The loop over the supplied parameters: the first one the schema does not declare.\<close>

definition unknown_param :: "pydict \<Rightarrow> schema \<Rightarrow> string option" where
  "unknown_param params schema =
     map_option fst (find (\<lambda>(param_name, _). map_of schema param_name = None) params)"

text \<open>The body of the loop over the entries.\<close>

definition normalise_entry :: "py_env \<Rightarrow> registry \<Rightarrow> nat \<Rightarrow> cfg_entry \<Rightarrow> error + cfg_entry" where
  "normalise_entry env reg idx entry =
     (case entry of
        NotADict \<Rightarrow>
          Inl (InvalidConfigError (''Validation entry at index '' @ str_nat idx
                 @ '' must be a dict''))
      | Entry column vname raw_params \<Rightarrow>
          (let params = (case raw_params of None \<Rightarrow> [] | Some d \<Rightarrow> d)
           in if column = VNone \<or> vname = VNone then
                Inl (InvalidConfigError (''Validation entry at index '' @ str_nat idx
                       @ '' must contain '' @ sq @ ''column'' @ sq @ '' and '' @ sq
                       @ ''validator'' @ sq @ '' keys''))
              else
                (case get_validator reg vname of
                   None \<Rightarrow>
                     Inl (UnknownValidatorError (''Unknown validator '' @ sq
                            @ py_str env vname @ sq @ '' in validation entry ''
                            @ str_nat idx))
                 | Some validator_class \<Rightarrow>
                     (let schema = get_required_params validator_class
                      in case fill_params env vname idx column params schema [] of
                           Inl e \<Rightarrow> Inl e
                         | Inr normalized_params \<Rightarrow>
                             (case unknown_param params schema of
                                Some param_name \<Rightarrow>
                                  Inl (InvalidConfigError (''Unknown parameter '' @ sq
                                         @ param_name @ sq @ '' for validator '' @ sq
                                         @ py_str env vname @ sq @ '' in entry ''
                                         @ str_nat idx))
                              | None \<Rightarrow>
                                  Inr (Entry column vname
                                         (Some normalized_params)))))))"

fun normalise_entries ::
  "py_env \<Rightarrow> registry \<Rightarrow> nat \<Rightarrow> cfg_entry list \<Rightarrow> cfg_entry list \<Rightarrow> error + cfg_entry list" where
  "normalise_entries env reg idx [] normalized = Inr normalized"
| "normalise_entries env reg idx (entry # rest) normalized =
     (case normalise_entry env reg idx entry of
        Inl e \<Rightarrow> Inl e
      | Inr n \<Rightarrow> normalise_entries env reg (Suc idx) rest (normalized @ [n]))"

text \<open>
  The configuration dict, read through \<^verbatim>\<open>"validations" in config\<close> and the type of
  \<^verbatim>\<open>config["validations"]\<close>.
\<close>

datatype raw_config = NoValidationsKey | ValidationsNotAList | Validations "cfg_entry list"

fun validate_and_normalise_config :: "py_env \<Rightarrow> registry \<Rightarrow> raw_config \<Rightarrow> error + cfg_entry list" where
  "validate_and_normalise_config env reg NoValidationsKey =
     Inl (InvalidConfigError (''Configuration must contain a '' @ sq @ ''validations'' @ sq
            @ '' list''))"
| "validate_and_normalise_config env reg ValidationsNotAList =
     Inl (InvalidConfigError (sq @ ''validations'' @ sq @ '' must be a list''))"
| "validate_and_normalise_config env reg (Validations validations) =
     normalise_entries env reg 0 validations []"

section \<open>The pipeline (pipeline.py)\<close>

record pipeline_result =
  p_passed :: bool
  total_validations :: nat
  passed_validations :: nat
  failed_validations :: nat
  results :: "validation_result list"
  p_duration_seconds :: "real option"

text \<open>
  A pipeline object: the configuration, the validator instances with their columns, and
  the result of the last run.
\<close>

record validation_pipeline =
  pl_config :: "cfg_entry list"
  validator_specs :: "(pyval \<times> validator) list"
  last_result :: "pipeline_result option"

text \<open>The loop of \<^verbatim>\<open>__init__\<close> over the entries, with the list built so far.\<close>

fun prepare_specs ::
  "py_env \<Rightarrow> registry \<Rightarrow> nat \<Rightarrow> cfg_entry list \<Rightarrow> (pyval \<times> validator) list
     \<Rightarrow> error + (pyval \<times> validator) list" where
  "prepare_specs env reg idx [] specs = Inr specs"
| "prepare_specs env reg idx (NotADict # rest) specs =
     Inl (InvalidConfigError (''Validation entry at index '' @ str_nat idx
            @ '' must be a dict.''))"
| "prepare_specs env reg idx (Entry column name raw_params # rest) specs =
     (let params = (case raw_params of None \<Rightarrow> [] | Some d \<Rightarrow> d)
      in if column = VNone \<or> name = VNone then
           Inl (InvalidConfigError (''Validation entry at index '' @ str_nat idx
                  @ '' must contain '' @ sq @ ''column'' @ sq @ '' and '' @ sq
                  @ ''validator'' @ sq @ '' keys.''))
         else
           (case get_validator reg name of
              None \<Rightarrow>
                Inl (UnknownValidatorError (''Unknown validator '' @ sq @ py_str env name @ sq
                       @ '' in validation entry '' @ str_nat idx @ ''.''))
            | Some validator_class \<Rightarrow>
                prepare_specs env reg (Suc idx) rest
                  (specs @ [(column, \<lparr>v_class = validator_class, v_config = params\<rparr>)])))"

definition new_pipeline ::
  "py_env \<Rightarrow> registry \<Rightarrow> cfg_entry list \<Rightarrow> error + validation_pipeline" where
  "new_pipeline env reg cfg =
     (case prepare_specs env reg 0 cfg [] of
        Inl e \<Rightarrow> Inl e
      | Inr specs \<Rightarrow> Inr \<lparr>pl_config = cfg, validator_specs = specs, last_result = None\<rparr>)"

text \<open>
  The loop of \<^verbatim>\<open>run\<close>, with the results and the two counters built so far.
  \<open>clock k\<close> is the \<open>k\<close>-th reading of \<^verbatim>\<open>time.perf_counter()\<close> in the call: reading
  0 is the start, readings \<open>2 * index - 1\<close> and \<open>2 * index\<close> surround the call of the
  validator with (1-based) number \<open>index\<close>.
\<close>

fun run_loop ::
  "py_env \<Rightarrow> data_frame \<Rightarrow> (nat \<Rightarrow> real) \<Rightarrow> nat \<Rightarrow> (pyval \<times> validator) list
     \<Rightarrow> validation_result list \<times> nat \<times> nat
     \<Rightarrow> error + validation_result list \<times> nat \<times> nat" where
  "run_loop env df clock index [] acc = Inr acc"
| "run_loop env df clock index ((col, v) # rest) (res, passed_count, failed_count) =
     (if \<not> has_column df col then
        Inl (InvalidConfigError (''Column '' @ sq @ py_str env col @ sq
               @ '' not found in input data.''))
      else
        (let val_start = clock (2 * index - 1)
         in case validate env v df col of
              Inl e \<Rightarrow> Inl e
            | Inr r0 \<Rightarrow>
                (let val_end = clock (2 * index);
                     r = r0\<lparr>duration_seconds := Some (val_end - val_start)\<rparr>
                 in run_loop env df clock (Suc index) rest
                      (if passed r then (res @ [r], passed_count + 1, failed_count)
                       else (res @ [r], passed_count, failed_count + 1)))))"

text \<open>
  \<^verbatim>\<open>run\<close>: the outcome of the call and the pipeline object after it. An exception
  leaves the object as it was.
\<close>

definition run ::
  "py_env \<Rightarrow> validation_pipeline \<Rightarrow> data_frame \<Rightarrow> (nat \<Rightarrow> real)
     \<Rightarrow> (error + pipeline_result) \<times> validation_pipeline" where
  "run env p df clock =
     (let start_time = clock 0;
          total = length (validator_specs p)
      in case run_loop env df clock 1 (validator_specs p) ([], 0, 0) of
           Inl e \<Rightarrow> (Inl e, p)
         | Inr (res, passed_count, failed_count) \<Rightarrow>
             (let end_time = clock (2 * total + 1);
                  overall_passed = (failed_count = 0);
                  pipeline_result =
                    \<lparr>p_passed = overall_passed, total_validations = total,
                     passed_validations = passed_count, failed_validations = failed_count,
                     results = res, p_duration_seconds = Some (end_time - start_time)\<rparr>
              in (Inr pipeline_result, p\<lparr>last_result := Some pipeline_result\<rparr>)))"

section \<open>A reference semantics for a fragment of Python's \<^verbatim>\<open>re\<close>\<close>

text \<open>
  The regular expression engine is not part of the program. To evaluate the validator on
  concrete patterns, this section gives the meaning of \<^verbatim>\<open>re.compile(p, flags).match\<close>
  for patterns that are a sequence of literal characters, \<^verbatim>\<open>.\<close>, character classes
  \<^verbatim>\<open>[...]\<close> with ranges, and the anchors \<^verbatim>\<open>^\<close> and \<^verbatim>\<open>$\<close>, each character or class
  with an optional \<^verbatim>\<open>*\<close>, \<^verbatim>\<open>+\<close> or \<^verbatim>\<open>?\<close>. Groups, alternation, escapes and counted
  repetition are outside the fragment: \<open>ref_re_compile\<close> answers \<open>Inl\<close> for them and
  says nothing about what Python does there.
\<close>

datatype atom = Lit char | AnyChar | Cls bool "(char \<times> char) list" | Bol | Eol

datatype token = TAtom atom | TStar | TPlus | TOpt

datatype piece = One atom | Star atom | Plus atom | Opt atom

fun lex_top :: "string \<Rightarrow> token list option"
and lex_cls :: "bool \<Rightarrow> (char \<times> char) list \<Rightarrow> string \<Rightarrow> token list option" where
  "lex_top [] = Some []"
| "lex_top (c # cs) =
     (if c = CHR ''['' then
        (case cs of
           d # cs' \<Rightarrow> if d = CHR ''^'' then lex_cls True [] cs' else lex_cls False [] cs
         | [] \<Rightarrow> None)
      else if c \<in> set ''()|{}'' \<or> c = CHR 0x5C then None
      else
        map_option
          ((#) (if c = CHR ''*'' then TStar
                else if c = CHR ''+'' then TPlus
                else if c = CHR ''?'' then TOpt
                else if c = CHR ''.'' then TAtom AnyChar
                else if c = CHR ''^'' then TAtom Bol
                else if c = CHR ''$'' then TAtom Eol
                else TAtom (Lit c)))
          (lex_top cs))"
| "lex_cls neg acc [] = None"
| "lex_cls neg acc [c] =
     (if c = CHR '']'' then Some [TAtom (Cls neg acc)] else None)"
| "lex_cls neg acc (c # d # cs) =
     (if c = CHR '']'' then map_option ((#) (TAtom (Cls neg acc))) (lex_top (d # cs))
      else if d = CHR ''-'' then
        (case cs of
           e # cs' \<Rightarrow>
             if e = CHR '']'' then lex_cls neg (acc @ [(c, c)]) (d # cs)
             else lex_cls neg (acc @ [(c, e)]) cs'
         | [] \<Rightarrow> None)
      else lex_cls neg (acc @ [(c, c)]) (d # cs))"

fun pieces :: "token list \<Rightarrow> piece list option" where
  "pieces [] = Some []"
| "pieces (TAtom Bol # ts) = map_option ((#) (One Bol)) (pieces ts)"
| "pieces (TAtom Eol # ts) = map_option ((#) (One Eol)) (pieces ts)"
| "pieces (TAtom a # TStar # ts) = map_option ((#) (Star a)) (pieces ts)"
| "pieces (TAtom a # TPlus # ts) = map_option ((#) (Plus a)) (pieces ts)"
| "pieces (TAtom a # TOpt # ts) = map_option ((#) (Opt a)) (pieces ts)"
| "pieces (TAtom a # ts) = map_option ((#) (One a)) (pieces ts)"
| "pieces (_ # ts) = None"

definition upper_char :: "char \<Rightarrow> char" where
  "upper_char c =
     (if (97::nat) \<le> of_char c \<and> of_char c \<le> (122::nat) then char_of (of_char c - (32::nat))
      else c)"

definition in_ranges :: "(char \<times> char) list \<Rightarrow> char \<Rightarrow> bool" where
  "in_ranges rs c =
     list_ex (\<lambda>(lo, hi). (of_char lo :: nat) \<le> of_char c \<and> (of_char c :: nat) \<le> of_char hi) rs"

text \<open>One character against one atom; \<open>ic\<close> is the IGNORECASE flag.\<close>

fun atom_ok :: "bool \<Rightarrow> atom \<Rightarrow> char \<Rightarrow> bool" where
  "atom_ok ic (Lit l) c = (if ic then lower_char c = lower_char l else c = l)"
| "atom_ok ic AnyChar c = (c \<noteq> CHR 0x0A)"
| "atom_ok ic (Cls neg rs) c =
     ((if ic then in_ranges rs c \<or> in_ranges rs (lower_char c) \<or> in_ranges rs (upper_char c)
       else in_ranges rs c) \<noteq> neg)"
| "atom_ok ic _ c = False"

text \<open>
  \<open>match_here ic ps at_start s\<close>: some prefix of \<open>s\<close> matches the pieces \<open>ps\<close>, where
  \<open>at_start\<close> says that \<open>s\<close> is the whole text (position 0).
\<close>

fun match_here :: "bool \<Rightarrow> piece list \<Rightarrow> bool \<Rightarrow> string \<Rightarrow> bool" where
  "match_here ic [] at_start s = True"
| "match_here ic (One Bol # ps) at_start s = (at_start \<and> match_here ic ps at_start s)"
| "match_here ic (One Eol # ps) at_start s =
     ((s = [] \<or> s = [CHR 0x0A]) \<and> match_here ic ps at_start s)"
| "match_here ic (One a # ps) at_start [] = False"
| "match_here ic (One a # ps) at_start (c # cs) =
     (atom_ok ic a c \<and> match_here ic ps False cs)"
| "match_here ic (Star a # ps) at_start [] = match_here ic ps at_start []"
| "match_here ic (Star a # ps) at_start (c # cs) =
     ((atom_ok ic a c \<and> match_here ic (Star a # ps) False cs)
      \<or> match_here ic ps at_start (c # cs))"
| "match_here ic (Plus a # ps) at_start [] = False"
| "match_here ic (Plus a # ps) at_start (c # cs) =
     (atom_ok ic a c \<and> match_here ic (Star a # ps) False cs)"
| "match_here ic (Opt a # ps) at_start [] = match_here ic ps at_start []"
| "match_here ic (Opt a # ps) at_start (c # cs) =
     ((atom_ok ic a c \<and> match_here ic ps False cs) \<or> match_here ic ps at_start (c # cs))"

definition ref_re_compile :: "string \<Rightarrow> bool \<Rightarrow> string + (string \<Rightarrow> bool)" where
  "ref_re_compile pattern ic =
     (case Option.bind (lex_top pattern) pieces of
        None \<Rightarrow> Inl ''pattern outside the fragment''
      | Some ps \<Rightarrow> Inr (match_here ic ps True))"

section \<open>An environment for the examples\<close>

text \<open>
  The examples below are evaluated in this environment. Its regular expressions are the
  reference fragment. Its floats are IEEE doubles in the normal range:
  \<open>round_ratio p q\<close> is the double nearest to \<open>p / q\<close>, ties to even, as a mantissa of
  53 bits and an exponent (overflow and subnormal numbers are outside the fragment). An
  int converts exactly up to \<open>2 ^ 53\<close> in magnitude and is rounded beyond, with
  OverflowError from \<open>2 ^ 1024\<close> on; division and multiplication round their exact
  result. A string is read as a float when it is a decimal literal (an optional sign,
  digits, optionally a point and digits). A float of integral value prints as Python
  prints it; \<^verbatim>\<open>{x:.2f}\<close> rounds the exact value to two decimals, ties to even; a
  datetime, a number and a string of the form \<^verbatim>\<open>dddd-dd-dd\<close> are read as datetimes;
  callable 0 accepts the values that are not missing and every other callable raises.
  Outside these fragments the environment says nothing about Python.
\<close>

fun bit_len :: "nat \<Rightarrow> nat" where
  "bit_len n = (if n = 0 then 0 else Suc (bit_len (n div 2)))"

declare bit_len.simps [simp del]

definition round_ratio :: "nat \<Rightarrow> nat \<Rightarrow> nat \<times> int" where
  "round_ratio p q =
     (if p = 0 then (0, 0)
      else
        (let e0 = int (bit_len p) - int (bit_len q) - 53;
             e = (if q * 2 ^ nat e0 * 2 ^ 53 \<le> p * 2 ^ nat (- e0) then e0 + 1 else e0);
             nu = p * 2 ^ nat (- e);
             de = q * 2 ^ nat e;
             m0 = nu div de;
             r = nu mod de;
             m = (if de < 2 * r \<or> (2 * r = de \<and> odd m0) then m0 + 1 else m0)
         in (m, e)))"

definition signed :: "bool \<Rightarrow> nat \<times> int \<Rightarrow> pyfloat" where
  "signed neg me = Fin (if neg then - int (fst me) else int (fst me)) (snd me)"

definition ref_float_of_int :: "int \<Rightarrow> string + pyfloat" where
  "ref_float_of_int n =
     (if \<bar>n\<bar> \<le> 9007199254740992 then Inr (Fin n 0)
      else
        (let me = round_ratio (nat \<bar>n\<bar>) 1
         in if 1024 < int (bit_len (fst me)) + snd me
            then Inl ''int too large to convert to float''
            else Inr (signed (n < 0) me)))"

definition ref_int_truediv :: "int \<Rightarrow> int \<Rightarrow> pyfloat" where
  "ref_int_truediv a b = signed ((a < 0) \<noteq> (b < 0)) (round_ratio (nat \<bar>a\<bar>) (nat \<bar>b\<bar>))"

fun is_negative :: "pyfloat \<Rightarrow> bool" where
  "is_negative (Fin m e) = (m < 0)"
| "is_negative NInf = True"
| "is_negative _ = False"

fun is_zero :: "pyfloat \<Rightarrow> bool" where
  "is_zero (Fin m e) = (m = 0)"
| "is_zero _ = False"

fun ref_float_mul :: "pyfloat \<Rightarrow> pyfloat \<Rightarrow> pyfloat" where
  "ref_float_mul (Fin m1 e1) (Fin m2 e2) =
     (let me = round_ratio (nat \<bar>m1 * m2\<bar>) 1
      in signed ((m1 < 0) \<noteq> (m2 < 0)) (fst me, snd me + e1 + e2))"
| "ref_float_mul a b =
     (if a = NaN \<or> b = NaN \<or> is_zero a \<or> is_zero b then NaN
      else if is_negative a \<noteq> is_negative b then NInf else PInf)"

definition is_digit :: "char \<Rightarrow> bool" where
  "is_digit c = ((48::nat) \<le> of_char c \<and> of_char c \<le> (57::nat))"

definition digits_val :: "string \<Rightarrow> nat option" where
  "digits_val s =
     (if s \<noteq> [] \<and> list_all is_digit s
      then Some (foldl (\<lambda>n c. 10 * n + (of_char c - 48)) 0 s)
      else None)"

definition ref_float_of_str :: "string \<Rightarrow> string + pyfloat" where
  "ref_float_of_str s =
     (let neg = (s \<noteq> [] \<and> hd s = CHR ''-'');
          body = (if s \<noteq> [] \<and> (hd s = CHR ''-'' \<or> hd s = CHR ''+'') then tl s else s);
          ip = takeWhile (\<lambda>c. c \<noteq> CHR ''.'') body;
          rest = dropWhile (\<lambda>c. c \<noteq> CHR ''.'') body;
          failed = Inl (''could not convert string to float: '' @ sq @ s @ sq)
      in case digits_val ip of
           None \<Rightarrow> failed
         | Some n \<Rightarrow>
             (case rest of
                [] \<Rightarrow> Inr (signed neg (round_ratio n 1))
              | _ # fp \<Rightarrow>
                  (case digits_val fp of
                     None \<Rightarrow> failed
                   | Some m \<Rightarrow>
                       Inr (signed neg
                              (round_ratio (n * 10 ^ length fp + m) (10 ^ length fp))))))"

fun ref_str_other :: "pyval \<Rightarrow> string" where
  "ref_str_other (VFloat (Fin m e)) =
     (if 0 \<le> e then str_int (m * 2 ^ nat e) @ ''.0''
      else if m mod 2 ^ nat (- e) = 0 then str_int (m div 2 ^ nat (- e)) @ ''.0''
      else ''<float>'')"
| "ref_str_other (VFloat PInf) = ''inf''"
| "ref_str_other (VFloat NInf) = ''-inf''"
| "ref_str_other (VFloat NaN) = ''nan''"
| "ref_str_other v = ''<'' @ type_name v @ ''>''"

fun ref_fmt_2f :: "pyfloat \<Rightarrow> string" where
  "ref_fmt_2f (Fin m e) =
     (let a = nat \<bar>m\<bar> * 100;
          k = nat (- e);
          n = a div 2 ^ k;
          r = a mod 2 ^ k;
          h = (if 0 \<le> e then a * 2 ^ nat e
               else if 2 ^ k < 2 * r \<or> (2 * r = 2 ^ k \<and> odd n) then n + 1 else n)
      in (if m < 0 then ''-'' else [])
           @ str_nat (h div 100) @ ''.'' @ str_nat (h mod 100 div 10) @ str_nat (h mod 10))"
| "ref_fmt_2f PInf = ''inf''"
| "ref_fmt_2f NInf = ''-inf''"
| "ref_fmt_2f NaN = ''nan''"

definition iso_date :: "string \<Rightarrow> bool" where
  "iso_date s =
     (length s = 10 \<and> s ! 4 = CHR ''-'' \<and> s ! 7 = CHR ''-''
      \<and> list_all is_digit (take 4 s @ take 2 (drop 5 s) @ drop 8 s))"

fun ref_to_datetime :: "pyval \<Rightarrow> string option" where
  "ref_to_datetime (VDatetime _) = None"
| "ref_to_datetime (VInt _) = None"
| "ref_to_datetime (VFloat _) = None"
| "ref_to_datetime (VStr s) =
     (if iso_date s then None
      else Some (''Unknown datetime string format, unable to parse: '' @ s))"
| "ref_to_datetime v = Some (''<class '' @ sq @ type_name v @ sq @ ''> is not convertible to datetime'')"

definition example_env :: py_env where
  "example_env =
     \<lparr>float_of_str = ref_float_of_str, float_of_int = ref_float_of_int,
      int_truediv = ref_int_truediv, float_mul = ref_float_mul,
      str_other = ref_str_other, fmt_2f = ref_fmt_2f,
      re_compile = ref_re_compile, to_datetime = ref_to_datetime,
      call = (\<lambda>k v. if k = 0 then Inr (VBool (\<not> isna v)) else Inl ''callable raised'')\<rparr>"

section \<open>The properties, as the specification words them\<close>

text \<open>
  The range rule of the specification: a bound that is not set disables its side;
  inclusive bounds fail a value strictly outside, exclusive bounds also fail the bound
  itself.
\<close>

definition below_min :: "pyfloat \<Rightarrow> pyval \<Rightarrow> bool \<Rightarrow> bool" where
  "below_min x min_value inclusive =
     (case as_number min_value of
        None \<Rightarrow> False
      | Some lo \<Rightarrow> if inclusive then flt x lo else fle x lo)"

definition above_max :: "pyfloat \<Rightarrow> pyval \<Rightarrow> bool \<Rightarrow> bool" where
  "above_max x max_value inclusive =
     (case as_number max_value of
        None \<Rightarrow> False
      | Some hi \<Rightarrow> if inclusive then fgt x hi else fge x hi)"

definition range_fails :: "py_env \<Rightarrow> pyval \<Rightarrow> pyval \<Rightarrow> bool \<Rightarrow> pyval \<Rightarrow> bool" where
  "range_fails env min_value max_value inclusive v =
     (isna v \<or>
      (case py_float env v of
         Inl _ \<Rightarrow> True
       | Inr x \<Rightarrow>
           (inclusive \<and> (below_min x min_value True \<or> above_max x max_value True)) \<or>
           (\<not> inclusive \<and> (below_min x min_value False \<or> above_max x max_value False))))"

text \<open>
  The null percentage of a column as the program computes it, in doubles:
  \<^verbatim>\<open>(nulls / total) * 100\<close>, and 0.0 for an empty column.
\<close>

definition null_percent :: "py_env \<Rightarrow> (pyval \<times> pyval) list \<Rightarrow> pyfloat" where
  "null_percent env series =
     (if length series = 0 then Fin 0 0
      else float_mul env
             (int_truediv env (int (length (filter (\<lambda>(idx, v). isna v) series)))
                (int (length series)))
             (Fin 100 0))"

text \<open>
  The words that end the summary message of a failed check, for each validator class.
\<close>

fun failure_phrase :: "validator_class \<Rightarrow> string" where
  "failure_phrase RangeValidator = ''range validation''"
| "failure_phrase NullCheckValidator = ''null check''"
| "failure_phrase RegexValidator = ''regex validation''"
| "failure_phrase TypeValidator = ''type validation''"
| "failure_phrase CustomFunctionValidator = ''custom validation''"

section \<open>Example configurations and tables\<close>

text \<open>range(min=0, max=10), inclusive by default, and the column [5, -1, 11].\<close>

definition ex_range_config :: pydict where
  "ex_range_config = [(''min_value'', VInt 0), (''max_value'', VInt 10)]"



definition ex_range_table :: data_frame where
  "ex_range_table =
     \<lparr>df_index = [VInt 0, VInt 1, VInt 2],
      df_columns = [(VStr ''value'', [VInt 5, VInt (- 1), VInt 11])]\<rparr>"

text \<open>
  null_check with nulls allowed, with a ceiling of 50 percent and with no ceiling, and the
  column [1, None, 3, 4] (one null in four rows).
\<close>

definition ex_null_config_limit :: pydict where
  "ex_null_config_limit = [(''allow_null'', VBool True), (''max_null_percent'', VFloat (Fin 50 0))]"

definition ex_null_config_nolimit :: pydict where
  "ex_null_config_nolimit = [(''allow_null'', VBool True)]"

definition ex_null_table :: data_frame where
  "ex_null_table =
     \<lparr>df_index = [VInt 0, VInt 1, VInt 2, VInt 3],
      df_columns = [(VStr ''x'', [VInt 1, VNone, VInt 3, VInt 4])]\<rparr>"

text \<open>
  regex with the pattern \<^verbatim>\<open>^[a-z]+$\<close>, case sensitive and not, and with the pattern
  \<^verbatim>\<open>b\<close>; three text columns.
\<close>

definition ex_regex_cs :: pydict where
  "ex_regex_cs = [(''pattern'', VStr ''^[a-z]+$''), (''case_sensitive'', VBool True)]"

definition ex_regex_ci :: pydict where
  "ex_regex_ci = [(''pattern'', VStr ''^[a-z]+$''), (''case_sensitive'', VBool False)]"

definition ex_regex_b :: pydict where
  "ex_regex_b = [(''pattern'', VStr ''b'')]"

definition ex_text_table1 :: data_frame where
  "ex_text_table1 =
     \<lparr>df_index = [VInt 0, VInt 1, VInt 2],
      df_columns = [(VStr ''text'', [VStr ''abc'', VStr ''Xyz'', VStr []])]\<rparr>"

definition ex_text_table2 :: data_frame where
  "ex_text_table2 =
     \<lparr>df_index = [VInt 0, VInt 1],
      df_columns = [(VStr ''text'', [VStr ''ABC'', VStr ''xyz''])]\<rparr>"

definition ex_text_table3 :: data_frame where
  "ex_text_table3 =
     \<lparr>df_index = [VInt 0, VInt 1],
      df_columns = [(VStr ''text'', [VStr ''ab'', VStr ''ba''])]\<rparr>"

text \<open>
  Two validator instances: the range validator above, and null_check with its defaults
  (nulls not allowed).
\<close>

definition ex_range_validator :: validator where
  "ex_range_validator = \<lparr>v_class = RangeValidator, v_config = ex_range_config\<rparr>"

definition ex_null_validator :: validator where
  "ex_null_validator = \<lparr>v_class = NullCheckValidator, v_config = []\<rparr>"

section \<open>Printing numbers\<close>

lemma char_of_digit:
  "char_of (48::nat) = CHR ''0''" "char_of (49::nat) = CHR ''1''" "char_of (50::nat) = CHR ''2''"
  "char_of (51::nat) = CHR ''3''" "char_of (52::nat) = CHR ''4''" "char_of (53::nat) = CHR ''5''"
  "char_of (54::nat) = CHR ''6''" "char_of (55::nat) = CHR ''7''" "char_of (56::nat) = CHR ''8''"
  "char_of (57::nat) = CHR ''9''"
  by code_simp+

section \<open>The row loop\<close>

lemma check_rows_Inr:
  assumes "\<And>idx v. (idx, v) \<in> set xs \<Longrightarrow> f idx v = Inr (g idx v)"
  shows "check_rows f xs acc = Inr (acc @ List.map_filter (\<lambda>(idx, v). g idx v) xs)"
  using assms
proof (induction xs arbitrary: acc)
  case Nil
  then show ?case by (simp add: List.map_filter_simps)
next
  case (Cons x xs)
  obtain idx v where x: "x = (idx, v)" by (cases x)
  have fx: "f idx v = Inr (g idx v)" using Cons.prems x by simp
  have rest: "\<And>acc'. check_rows f xs acc' = Inr (acc' @ List.map_filter (\<lambda>(idx, v). g idx v) xs)"
    using Cons.IH Cons.prems by simp
  show ?case
    by (cases "g idx v") (simp_all add: x fx rest List.map_filter_simps)
qed


section \<open>RangeValidator\<close>






text \<open>
  The conversion to a double is part of the rule. In the example environment
  \<^verbatim>\<open>float(9007199254740993)\<close> is \<open>2 ^ 53 = 9007199254740992\<close>, so with the
  inclusive lower bound 9007199254740993 the value 9007199254740993 lies below the bound
  and its row fails, and with the inclusive upper bound \<open>2 ^ 53\<close> the same value does
  not lie above the bound and its row passes.
\<close>

lemma float_of_large_int:
  "float_of_int example_env 9007199254740993 = Inr (Fin 4503599627370496 1)"
  by (simp add: example_env_def ref_float_of_int_def round_ratio_def signed_def
        bit_len.simps Let_def)

lemma range_rounds_large_int:
  "range_fails example_env (VInt 9007199254740993) VNone True (VInt 9007199254740993)
   \<and> \<not> range_fails example_env VNone (VInt 9007199254740992) True (VInt 9007199254740993)"
  by (simp add: range_fails_def float_of_large_int below_min_def above_max_def fgt_def)

section \<open>NullCheckValidator\<close>

lemma null_rows:
  "check_rows (null_row reason) (map (\<lambda>(idx, v). (idx, VBool (isna v))) xs) acc
     = Inr (acc @ map (\<lambda>(idx, v). \<lparr>fd_row = idx, fd_value = VNone, fd_reason = reason\<rparr>)
                    (filter (\<lambda>(idx, v). isna v) xs))"
  by (induction xs arbitrary: acc) (auto simp add: null_row_def)

lemma num_null_count:
  "length (filter (\<lambda>(idx, is_null). truthy is_null) (map (\<lambda>(idx, v). (idx, VBool (isna v))) xs))
     = length (filter (\<lambda>(idx, v). isna v) xs)"
  by (induction xs) auto

lemma null_check_limit:
  assumes items: "series_items env df column = Inr xs"
      and allow: "truthy (dict_get_default config ''allow_null'' (VBool False))"
      and lim: "as_number (dict_get config ''max_null_percent'') = Some limit"
  shows "\<exists>res. null_check_validate env config df column = Inr res
           \<and> error_details res =
               map (\<lambda>(idx, v). \<lparr>fd_row = idx, fd_value = VNone,
                      fd_reason =
                        (if fgt (null_percent env xs) limit
                         then VStr (''Null percentage '' @ fmt_2f env (null_percent env xs)
                                @ ''% exceeds limit ''
                                @ py_str env (dict_get config ''max_null_percent'') @ ''%'')
                         else VStr (''Null present but within allowed ''
                                @ py_str env (dict_get config ''max_null_percent'')
                                @ ''% limit''))\<rparr>)
                 (filter (\<lambda>(idx, v). isna v) xs)
           \<and> failed_records res = length (filter (\<lambda>(idx, v). isna v) xs)
           \<and> passed res = (failed_records res = 0)
           \<and> (passed res \<longleftrightarrow> \<not> list_ex (\<lambda>(idx, v). isna v) xs)"
proof -
  have ne: "dict_get config ''max_null_percent'' \<noteq> VNone"
    using lim by auto
  have le: "(length (filter (\<lambda>(idx, v). isna v) xs) = 0)
              = (\<not> list_ex (\<lambda>(idx, v). isna v) xs)"
    by (auto simp add: list_ex_iff filter_empty_conv)
  have pc: "(if length xs \<noteq> 0
             then float_mul env
                    (int_truediv env (int (length (filter (\<lambda>(idx, v). isna v) xs)))
                       (int (length xs)))
                    (Fin 100 0)
             else Fin 0 0) = null_percent env xs"
    by (simp add: null_percent_def)
  show ?thesis
    apply (simp only: null_check_validate_def items Let_def sum.case num_null_count pc)
    using allow ne le
    apply (simp add: lim null_rows)
    done
qed

text \<open>
  Claim C2. With \<open>allow_null\<close> true and a ceiling \<open>max_null_percent\<close>, \<^verbatim>\<open>validate\<close>
  records one failure detail for every null row, in row order, whether or not the null
  percentage exceeds the ceiling: \<open>failed_records\<close> is the number of null rows,
  \<open>passed\<close> is \<open>failed_records = 0\<close>, and so \<open>passed\<close> is false as soon as the column
  holds one null. When the percentage the program computes, \<^verbatim>\<open>(nulls / total) * 100\<close>
  in doubles, does not exceed the ceiling, the reason of every detail is "Null present
  but within allowed ...% limit"; when it does, the reason cites the exceeded limit.
\<close>

theorem null_check_within_limit_still_fails:
  assumes allow: "truthy (dict_get_default config ''allow_null'' (VBool False))"
      and lim: "as_number (dict_get config ''max_null_percent'') = Some limit"
      and col: "map_of (df_columns df) column = Some vals"
  shows "\<exists>res. null_check_validate env config df column = Inr res
           \<and> error_details res =
               map (\<lambda>(idx, v). \<lparr>fd_row = idx, fd_value = VNone,
                      fd_reason =
                        (if fgt (null_percent env (zip (df_index df) vals)) limit
                         then VStr (''Null percentage ''
                                @ fmt_2f env (null_percent env (zip (df_index df) vals))
                                @ ''% exceeds limit ''
                                @ py_str env (dict_get config ''max_null_percent'') @ ''%'')
                         else VStr (''Null present but within allowed ''
                                @ py_str env (dict_get config ''max_null_percent'')
                                @ ''% limit''))\<rparr>)
                 (filter (\<lambda>(idx, v). isna v) (zip (df_index df) vals))
           \<and> failed_records res = length (filter (\<lambda>(idx, v). isna v) (zip (df_index df) vals))
           \<and> passed res = (failed_records res = 0)
           \<and> (passed res \<longleftrightarrow> \<not> list_ex (\<lambda>(idx, v). isna v) (zip (df_index df) vals))"
proof -
  have items: "series_items env df column = Inr (zip (df_index df) vals)"
    by (simp add: series_items_def col)
  show ?thesis
    by (rule null_check_limit[OF items allow lim])
qed

text \<open>
  The percentage of one null in four rows, computed in doubles, is 25.0.
\<close>

lemma example_quotient_1_of_4:
  "int_truediv example_env 1 4 = Fin 4503599627370496 (- 54)"
  by (simp add: example_env_def ref_int_truediv_def round_ratio_def signed_def
        bit_len.simps Let_def)

lemma example_percent_1_of_4:
  "float_mul example_env (int_truediv example_env 1 4) (Fin 100 0)
     = Fin 7036874417766400 (- 48)
   \<and> feq (Fin 7036874417766400 (- 48)) (Fin 25 0)"
  by (simp add: example_quotient_1_of_4)
     (simp add: example_env_def round_ratio_def signed_def bit_len.simps Let_def)

text \<open>
  The theorem at \<open>allow_null = True\<close>, \<open>max_null_percent = 50.0\<close> over the column
  [1, None, 3, 4]: 25 percent of the rows are null, the null row is recorded as within the
  limit and the result has not passed.
\<close>

theorem null_check_within_limit_still_fails_witness:
  "\<exists>res. null_check_validate example_env ex_null_config_limit ex_null_table (VStr ''x'') = Inr res
         \<and> error_details res =
             [\<lparr>fd_row = VInt 1, fd_value = VNone,
               fd_reason = VStr ''Null present but within allowed 50.0% limit''\<rparr>]
         \<and> failed_records res = 1 \<and> \<not> passed res"
proof -
  have allow: "truthy (dict_get_default ex_null_config_limit ''allow_null'' (VBool False))"
    by (simp add: dict_get_default_def ex_null_config_limit_def)
  have lim: "as_number (dict_get ex_null_config_limit ''max_null_percent'') = Some (Fin 50 0)"
    by (simp add: dict_get_def ex_null_config_limit_def)
  have col: "map_of (df_columns ex_null_table) (VStr ''x'') = Some [VInt 1, VNone, VInt 3, VInt 4]"
    by (simp add: ex_null_table_def)
  have pct: "null_percent example_env (zip (df_index ex_null_table)
               [VInt 1, VNone, VInt 3, VInt 4]) = Fin 7036874417766400 (- 48)"
    by (simp add: null_percent_def ex_null_table_def example_percent_1_of_4)
  have rows: "map (\<lambda>(idx, v). \<lparr>fd_row = idx, fd_value = VNone,
                      fd_reason =
                        (if fgt (Fin 7036874417766400 (- 48)) (Fin 50 0)
                         then VStr (''Null percentage '' @ fmt_2f example_env (Fin 7036874417766400 (- 48))
                                @ ''% exceeds limit ''
                                @ py_str example_env (dict_get ex_null_config_limit ''max_null_percent'')
                                @ ''%'')
                         else VStr (''Null present but within allowed ''
                                @ py_str example_env (dict_get ex_null_config_limit ''max_null_percent'')
                                @ ''% limit''))\<rparr>)
                 (filter (\<lambda>(idx, v). isna v)
                    (zip (df_index ex_null_table) [VInt 1, VNone, VInt 3, VInt 4]))
               = [\<lparr>fd_row = VInt 1, fd_value = VNone,
                   fd_reason = VStr ''Null present but within allowed 50.0% limit''\<rparr>]"
    by (simp add: ex_null_table_def dict_get_def ex_null_config_limit_def example_env_def
          str_int_def str_nat.simps char_of_digit fgt_def)
  from null_check_within_limit_still_fails[OF allow lim col, of example_env]
  obtain res where r: "null_check_validate example_env ex_null_config_limit ex_null_table
                         (VStr ''x'') = Inr res"
    and d: "error_details res =
               map (\<lambda>(idx, v). \<lparr>fd_row = idx, fd_value = VNone,
                      fd_reason =
                        (if fgt (null_percent example_env (zip (df_index ex_null_table)
                                   [VInt 1, VNone, VInt 3, VInt 4])) (Fin 50 0)
                         then VStr (''Null percentage ''
                                @ fmt_2f example_env (null_percent example_env
                                    (zip (df_index ex_null_table) [VInt 1, VNone, VInt 3, VInt 4]))
                                @ ''% exceeds limit ''
                                @ py_str example_env (dict_get ex_null_config_limit ''max_null_percent'')
                                @ ''%'')
                         else VStr (''Null present but within allowed ''
                                @ py_str example_env (dict_get ex_null_config_limit ''max_null_percent'')
                                @ ''% limit''))\<rparr>)
                 (filter (\<lambda>(idx, v). isna v)
                    (zip (df_index ex_null_table) [VInt 1, VNone, VInt 3, VInt 4]))"
    and n: "failed_records res = length (filter (\<lambda>(idx, v). isna v)
              (zip (df_index ex_null_table) [VInt 1, VNone, VInt 3, VInt 4]))"
    and p: "passed res = (failed_records res = 0)"
    by (elim exE conjE)
  have d': "error_details res =
             [\<lparr>fd_row = VInt 1, fd_value = VNone,
               fd_reason = VStr ''Null present but within allowed 50.0% limit''\<rparr>]"
    using d unfolding pct using rows by (rule trans)
  have n': "failed_records res = 1"
    using n by (simp add: ex_null_table_def)
  show ?thesis
    by (rule exI[of _ res]) (simp add: r d' n' p)
qed

text \<open>
  The percentage is the one computed in doubles: for 7 nulls in 25 rows it is
  28.000000000000004 (the double \<open>7881299347898369 * 2 ^ -48\<close>, one step above 28),
  which exceeds a ceiling of 28.0; the reason then reads "Null percentage 28.00% exceeds
  limit 28.0%".
\<close>

lemma example_quotient_7_of_25:
  "int_truediv example_env 7 25 = Fin 5044031582654956 (- 54)"
  by (simp add: example_env_def ref_int_truediv_def round_ratio_def signed_def
        bit_len.simps Let_def)

lemma example_percent_7_of_25:
  "float_mul example_env (int_truediv example_env 7 25) (Fin 100 0)
     = Fin 7881299347898369 (- 48)
   \<and> fgt (Fin 7881299347898369 (- 48)) (Fin 28 0)
   \<and> fmt_2f example_env (Fin 7881299347898369 (- 48)) = ''28.00''
   \<and> py_str example_env (VFloat (Fin 28 0)) = ''28.0''"
  by (simp add: example_quotient_7_of_25)
     (simp add: example_env_def round_ratio_def signed_def bit_len.simps Let_def fgt_def
        str_int_def str_nat.simps char_of_digit)

text \<open>
  Claim C10. With \<open>allow_null\<close> true and \<open>max_null_percent\<close> unset, \<^verbatim>\<open>validate\<close>
  returns \<open>passed = True\<close>, \<open>failed_records = 0\<close> and no failure detail, whatever the
  column holds.
\<close>

theorem null_check_allowed_no_limit_passes:
  assumes allow: "truthy (dict_get_default config ''allow_null'' (VBool False))"
      and unset: "dict_get config ''max_null_percent'' = VNone"
      and col: "map_of (df_columns df) column = Some vals"
  shows "\<exists>res. null_check_validate env config df column = Inr res
           \<and> passed res \<and> failed_records res = 0 \<and> error_details res = []
           \<and> total_records res = length (zip (df_index df) vals)"
  using allow unset
  by (simp add: null_check_validate_def series_items_def col Let_def)

text \<open>
  The theorem at \<open>allow_null = True\<close> with no ceiling over the column [1, None, 3, 4],
  which holds a null.
\<close>

theorem null_check_allowed_no_limit_passes_witness:
  "list_ex isna [VInt 1, VNone, VInt 3, VInt 4]
   \<and> (\<exists>res. null_check_validate example_env ex_null_config_nolimit ex_null_table (VStr ''x'')
              = Inr res
         \<and> passed res \<and> failed_records res = 0 \<and> error_details res = []
         \<and> total_records res = 4)"
proof -
  have allow: "truthy (dict_get_default ex_null_config_nolimit ''allow_null'' (VBool False))"
    by (simp add: dict_get_default_def ex_null_config_nolimit_def)
  have unset: "dict_get ex_null_config_nolimit ''max_null_percent'' = VNone"
    by (simp add: dict_get_def ex_null_config_nolimit_def)
  have col: "map_of (df_columns ex_null_table) (VStr ''x'') = Some [VInt 1, VNone, VInt 3, VInt 4]"
    by (simp add: ex_null_table_def)
  have len: "length (zip (df_index ex_null_table) [VInt 1, VNone, VInt 3, VInt 4]) = 4"
    by (simp add: ex_null_table_def)
  show ?thesis
    using null_check_allowed_no_limit_passes[OF allow unset col, of example_env]
    unfolding len by simp
qed

section \<open>RegexValidator\<close>

lemma map_filter_cond:
  "List.map_filter (\<lambda>(idx, v). if P idx v then Some (h idx v) else None) xs
     = map (\<lambda>(idx, v). h idx v) (filter (\<lambda>(idx, v). P idx v) xs)"
  by (induction xs) (auto simp add: List.map_filter_simps)

lemma regex_row_eq:
  "regex_row env regex_match idx v =
     Inr (if isna v \<or> \<not> regex_match (py_str env v)
          then Some (if isna v
                     then \<lparr>fd_row = idx, fd_value = VNone,
                           fd_reason = VStr ''Null value cannot match pattern''\<rparr>
                     else \<lparr>fd_row = idx, fd_value = VStr (py_str env v),
                           fd_reason = VStr ''Does not match pattern''\<rparr>)
          else None)"
  by (simp add: regex_row_def Let_def)

lemma regex_validate_rows:
  assumes pat: "dict_get config ''pattern'' \<noteq> VNone"
      and comp: "re_compile env (py_str env (dict_get config ''pattern''))
                   (\<not> truthy (dict_get_default config ''case_sensitive'' (VBool True)))
                 = Inr regex_match"
      and col: "map_of (df_columns df) column = Some vals"
  shows "\<exists>res. regex_validate env config df column = Inr res
           \<and> error_details res =
               map (\<lambda>(idx, v).
                      if isna v
                      then \<lparr>fd_row = idx, fd_value = VNone,
                            fd_reason = VStr ''Null value cannot match pattern''\<rparr>
                      else \<lparr>fd_row = idx, fd_value = VStr (py_str env v),
                            fd_reason = VStr ''Does not match pattern''\<rparr>)
                 (filter (\<lambda>(idx, v). isna v \<or> \<not> regex_match (py_str env v))
                    (zip (df_index df) vals))
           \<and> failed_records res = length (error_details res)
           \<and> passed res = (failed_records res = 0)"
proof -
  let ?xs = "zip (df_index df) vals"
  let ?h = "\<lambda>idx v. if isna v
                     then \<lparr>fd_row = idx, fd_value = VNone,
                           fd_reason = VStr ''Null value cannot match pattern''\<rparr>
                     else \<lparr>fd_row = idx, fd_value = VStr (py_str env v),
                           fd_reason = VStr ''Does not match pattern''\<rparr>"
  let ?P = "\<lambda>idx v. isna v \<or> \<not> regex_match (py_str env v)"
  have loop: "check_rows (regex_row env regex_match) ?xs []
                = Inr (map (\<lambda>(idx, v). ?h idx v) (filter (\<lambda>(idx, v). ?P idx v) ?xs))"
    using check_rows_Inr[of ?xs "regex_row env regex_match"
            "\<lambda>idx v. if ?P idx v then Some (?h idx v) else None" "[]"]
    by (simp only: regex_row_eq map_filter_cond append_Nil)
  show ?thesis
    using pat
    by (simp add: regex_validate_def comp series_items_def col loop Let_def)
qed

lemma regex_example_case_sensitive:
  "\<exists>res. regex_validate example_env ex_regex_cs ex_text_table1 (VStr ''text'') = Inr res
         \<and> failed_records res = 2 \<and> map fd_row (error_details res) = [VInt 1, VInt 2]"
  by (simp add: regex_validate_def ex_regex_cs_def ex_text_table1_def example_env_def
        dict_get_def dict_get_default_def ref_re_compile_def series_items_def regex_row_def
        len_df_def in_ranges_def Let_def)

lemma regex_example_ignore_case:
  "\<exists>res. regex_validate example_env ex_regex_ci ex_text_table2 (VStr ''text'') = Inr res
         \<and> passed res"
  by (simp add: regex_validate_def ex_regex_ci_def ex_text_table2_def example_env_def
        dict_get_def dict_get_default_def ref_re_compile_def series_items_def regex_row_def
        len_df_def in_ranges_def Let_def lower_char_def upper_char_def)

lemma regex_example_anchored:
  "\<exists>res. regex_validate example_env ex_regex_b ex_text_table3 (VStr ''text'') = Inr res
         \<and> map fd_row (error_details res) = [VInt 0]"
  by (simp add: regex_validate_def ex_regex_b_def ex_text_table3_def example_env_def
        dict_get_def dict_get_default_def ref_re_compile_def series_items_def regex_row_def
        len_df_def in_ranges_def Let_def)

text \<open>
  Claim C6. For a regex validator whose pattern is present and compiles (with the
  IGNORECASE flag set exactly when \<open>case_sensitive\<close> is false) to the matcher
  \<open>regex_match\<close> of \<^verbatim>\<open>regex.match\<close>, the failure details are, in row order, the null
  rows (reason "Null value cannot match pattern") and the rows whose stringified value
  \<open>regex_match\<close> rejects (reason "Does not match pattern"). In the example
  environment: pattern \<^verbatim>\<open>^[a-z]+$\<close>, case sensitive, over ["abc", "Xyz", ""] gives
  \<open>failed_records = 2\<close>; the same pattern, not case sensitive, over ["ABC", "xyz"] passes;
  and the pattern \<^verbatim>\<open>b\<close> over ["ab", "ba"] fails "ab" and accepts "ba": the match is
  anchored at the start of the text and is not a search.
\<close>

theorem regex_validate_match_at_start:
  assumes pat: "dict_get config ''pattern'' \<noteq> VNone"
      and comp: "re_compile env (py_str env (dict_get config ''pattern''))
                   (\<not> truthy (dict_get_default config ''case_sensitive'' (VBool True)))
                 = Inr regex_match"
      and col: "map_of (df_columns df) column = Some vals"
  shows "(\<exists>res. regex_validate env config df column = Inr res
           \<and> error_details res =
               map (\<lambda>(idx, v).
                      if isna v
                      then \<lparr>fd_row = idx, fd_value = VNone,
                            fd_reason = VStr ''Null value cannot match pattern''\<rparr>
                      else \<lparr>fd_row = idx, fd_value = VStr (py_str env v),
                            fd_reason = VStr ''Does not match pattern''\<rparr>)
                 (filter (\<lambda>(idx, v). isna v \<or> \<not> regex_match (py_str env v))
                    (zip (df_index df) vals))
           \<and> failed_records res = length (error_details res)
           \<and> passed res = (failed_records res = 0))
         \<and> (\<exists>res. regex_validate example_env ex_regex_cs ex_text_table1 (VStr ''text'') = Inr res
                \<and> failed_records res = 2 \<and> map fd_row (error_details res) = [VInt 1, VInt 2])
         \<and> (\<exists>res. regex_validate example_env ex_regex_ci ex_text_table2 (VStr ''text'') = Inr res
                \<and> passed res)
         \<and> (\<exists>res. regex_validate example_env ex_regex_b ex_text_table3 (VStr ''text'') = Inr res
                \<and> map fd_row (error_details res) = [VInt 0])"
  using regex_validate_rows[OF pat comp col] regex_example_case_sensitive
    regex_example_ignore_case regex_example_anchored
  by (intro conjI)

text \<open>
  The theorem in the example environment at the case-sensitive pattern over
  ["abc", "Xyz", ""]: the details are the rows "Xyz" and "".
\<close>

theorem regex_validate_match_at_start_witness:
  "\<exists>res. regex_validate example_env ex_regex_cs ex_text_table1 (VStr ''text'') = Inr res
         \<and> error_details res =
             [\<lparr>fd_row = VInt 1, fd_value = VStr ''Xyz'', fd_reason = VStr ''Does not match pattern''\<rparr>,
              \<lparr>fd_row = VInt 2, fd_value = VStr [], fd_reason = VStr ''Does not match pattern''\<rparr>]"
proof -
  let ?m = "match_here False [One Bol, Plus (Cls False [(CHR ''a'', CHR ''z'')]), One Eol] True"
  have pat: "dict_get ex_regex_cs ''pattern'' \<noteq> VNone"
    by (simp add: dict_get_def ex_regex_cs_def)
  have comp: "re_compile example_env (py_str example_env (dict_get ex_regex_cs ''pattern''))
                (\<not> truthy (dict_get_default ex_regex_cs ''case_sensitive'' (VBool True)))
              = Inr ?m"
    by (simp add: dict_get_def dict_get_default_def ex_regex_cs_def example_env_def
          ref_re_compile_def)
  have col: "map_of (df_columns ex_text_table1) (VStr ''text'')
               = Some [VStr ''abc'', VStr ''Xyz'', VStr []]"
    by (simp add: ex_text_table1_def)
  have rows: "map (\<lambda>(idx, v).
                      if isna v
                      then \<lparr>fd_row = idx, fd_value = VNone,
                            fd_reason = VStr ''Null value cannot match pattern''\<rparr>
                      else \<lparr>fd_row = idx, fd_value = VStr (py_str example_env v),
                            fd_reason = VStr ''Does not match pattern''\<rparr>)
                 (filter (\<lambda>(idx, v). isna v \<or> \<not> ?m (py_str example_env v))
                    (zip (df_index ex_text_table1) [VStr ''abc'', VStr ''Xyz'', VStr []]))
              = [\<lparr>fd_row = VInt 1, fd_value = VStr ''Xyz'',
                  fd_reason = VStr ''Does not match pattern''\<rparr>,
                 \<lparr>fd_row = VInt 2, fd_value = VStr [],
                  fd_reason = VStr ''Does not match pattern''\<rparr>]"
    by (simp add: ex_text_table1_def in_ranges_def)
  from conjunct1[OF regex_validate_match_at_start[OF pat comp col]]
  obtain res where r: "regex_validate example_env ex_regex_cs ex_text_table1 (VStr ''text'')
                         = Inr res"
    and d: "error_details res =
              map (\<lambda>(idx, v).
                      if isna v
                      then \<lparr>fd_row = idx, fd_value = VNone,
                            fd_reason = VStr ''Null value cannot match pattern''\<rparr>
                      else \<lparr>fd_row = idx, fd_value = VStr (py_str example_env v),
                            fd_reason = VStr ''Does not match pattern''\<rparr>)
                 (filter (\<lambda>(idx, v). isna v \<or> \<not> ?m (py_str example_env v))
                    (zip (df_index ex_text_table1) [VStr ''abc'', VStr ''Xyz'', VStr []]))"
    by (elim exE conjE)
  have d': "error_details res =
             [\<lparr>fd_row = VInt 1, fd_value = VStr ''Xyz'', fd_reason = VStr ''Does not match pattern''\<rparr>,
              \<lparr>fd_row = VInt 2, fd_value = VStr [], fd_reason = VStr ''Does not match pattern''\<rparr>]"
    using d rows by (rule trans)
  show ?thesis
    by (rule exI[of _ res]) (simp add: r d')
qed

section \<open>The summary message\<close>

lemma range_message:
  "range_validate env cfg df column = Inr res \<Longrightarrow>
   message res =
     (if failed_records res = 0 then ''All '' @ str_nat (total_records res) @ '' records passed''
      else str_nat (failed_records res) @ ''/'' @ str_nat (total_records res)
             @ '' records failed range validation'')"
  by (auto simp add: range_validate_def Let_def split: sum.splits)

lemma null_message:
  "null_check_validate env cfg df column = Inr res \<Longrightarrow>
   message res =
     (if failed_records res = 0 then ''All '' @ str_nat (total_records res) @ '' records passed''
      else str_nat (failed_records res) @ ''/'' @ str_nat (total_records res)
             @ '' records failed null check'')"
  by (auto simp add: null_check_validate_def Let_def split: sum.splits)

lemma regex_message:
  "regex_validate env cfg df column = Inr res \<Longrightarrow>
   message res =
     (if failed_records res = 0 then ''All '' @ str_nat (total_records res) @ '' records passed''
      else str_nat (failed_records res) @ ''/'' @ str_nat (total_records res)
             @ '' records failed regex validation'')"
  by (auto simp add: regex_validate_def Let_def split: sum.splits if_splits)

lemma type_message:
  "type_validate env cfg df column = Inr res \<Longrightarrow>
   message res =
     (if failed_records res = 0 then ''All '' @ str_nat (total_records res) @ '' records passed''
      else str_nat (failed_records res) @ ''/'' @ str_nat (total_records res)
             @ '' records failed type validation'')"
  by (auto simp add: type_validate_def Let_def split: sum.splits if_splits)

lemma custom_message:
  "custom_validate env cfg df column = Inr res \<Longrightarrow>
   message res =
     (if failed_records res = 0 then ''All '' @ str_nat (total_records res) @ '' records passed''
      else str_nat (failed_records res) @ ''/'' @ str_nat (total_records res)
             @ '' records failed custom validation'')"
  by (auto simp add: custom_validate_def Let_def split: sum.splits if_splits)

text \<open>
  Claim C9, as stated, fails for null_check: with its defaults over the column
  [1, None, 3, 4] the message is "1/4 records failed null check", which does not end in
  "validation".
\<close>

theorem validate_message_counterexample:
  "\<not> isl (validate example_env ex_null_validator ex_null_table (VStr ''x''))
   \<and> message (projr (validate example_env ex_null_validator ex_null_table (VStr ''x'')))
       = ''1/4 records failed null check''
   \<and> \<not> suffix '' validation''
         (message (projr (validate example_env ex_null_validator ex_null_table (VStr ''x''))))"
  by (simp add: ex_null_validator_def ex_null_table_def null_check_validate_def
        series_items_def dict_get_def dict_get_default_def null_row_def Let_def
        str_nat.simps char_of_digit suffix_to_prefix)

text \<open>
  Claim C9, amended. Every result a built-in validator returns has the message
  "All {total} records passed" when \<open>failed_records\<close> is 0, and otherwise
  "{failed}/{total} records failed " followed by "range validation", "regex validation",
  "type validation" or "custom validation" for the range, regex, type and
  custom_function validators, and by "null check" for null_check.
\<close>

theorem validate_message:
  assumes "validate env v df column = Inr res"
  shows "message res =
           (if failed_records res = 0
            then ''All '' @ str_nat (total_records res) @ '' records passed''
            else str_nat (failed_records res) @ ''/'' @ str_nat (total_records res)
                   @ '' records failed '' @ failure_phrase (v_class v))"
  using assms
  by (cases "v_class v")
     (simp_all add: range_message null_message regex_message type_message custom_message)

text \<open>
  The theorem at range(min=0, max=10) over the column [5, -1, 11]: two of three rows fail.
\<close>

theorem validate_message_witness:
  "\<exists>res. validate example_env ex_range_validator ex_range_table (VStr ''value'') = Inr res
         \<and> message res = ''2/3 records failed range validation''"
proof -
  have "\<exists>res. validate example_env ex_range_validator ex_range_table (VStr ''value'') = Inr res
          \<and> failed_records res = 2 \<and> total_records res = 3"
    by (simp add: ex_range_validator_def ex_range_config_def ex_range_table_def
          range_validate_def dict_get_def dict_get_default_def series_items_def
          range_row_def len_df_def Let_def fgt_def example_env_def ref_float_of_int_def)
  then obtain res where r: "validate example_env ex_range_validator ex_range_table (VStr ''value'')
                              = Inr res"
    and f: "failed_records res = 2" and t: "total_records res = 3"
    by (elim exE conjE)
  have c: "v_class ex_range_validator = RangeValidator"
    by (simp add: ex_range_validator_def)
  have "message res = ''2/3 records failed range validation''"
    using validate_message[OF r] by (simp add: f t c str_nat.simps char_of_digit)
  then show ?thesis using r by (intro exI[of _ res]) simp
qed

end
